theory Spec2Isabelle
  imports Main "HOL-Library.Multiset"
begin

section \<open>Slug generation (src/utils/contentManager.ts)\<close>

text \<open>
  A JavaScript string is a sequence of UTF-16 code units; the three regular expressions of
  \<^verbatim>\<open>generateSlug\<close> carry no \<^verbatim>\<open>u\<close> flag, so they classify one code unit at a time.
  A code unit is modelled by its number.
\<close>

type_synonym js_string = "nat list"

definition hyphen :: nat where
  "hyphen = 45"

text \<open>The class \<^verbatim>\<open>\w\<close>: \<^verbatim>\<open>[A-Za-z0-9_]\<close>.\<close>

definition is_word :: "nat \<Rightarrow> bool" where
  "is_word c = ((48 \<le> c \<and> c \<le> 57) \<or> (65 \<le> c \<and> c \<le> 90) \<or> c = 95 \<or> (97 \<le> c \<and> c \<le> 122))"

text \<open>
  The class \<^verbatim>\<open>\s\<close>, which is also what \<^verbatim>\<open>trim\<close> strips: the white space and line
  terminator code points of ECMAScript (TAB, LF, VT, FF, CR, SP, NBSP, U+1680,
  U+2000..U+200A, U+2028, U+2029, U+202F, U+205F, U+3000, U+FEFF).
\<close>

definition is_space :: "nat \<Rightarrow> bool" where
  "is_space c = ((9 \<le> c \<and> c \<le> 13) \<or> c = 32 \<or> c = 160 \<or> c = 5760 \<or> (8192 \<le> c \<and> c \<le> 8202)
     \<or> c = 8232 \<or> c = 8233 \<or> c = 8239 \<or> c = 8287 \<or> c = 12288 \<or> c = 65279)"

definition is_hyphen :: "nat \<Rightarrow> bool" where
  "is_hyphen c = (c = hyphen)"

definition is_upper :: "nat \<Rightarrow> bool" where
  "is_upper c = (65 \<le> c \<and> c \<le> 90)"

text \<open>\<^verbatim>\<open>[^\w\s-]\<close> matches the code units that are removed; \<open>kept\<close> is its complement.\<close>

definition kept :: "nat \<Rightarrow> bool" where
  "kept c = (is_word c \<or> is_space c \<or> is_hyphen c)"

text \<open>
  \<^verbatim>\<open>s.replace(/X+/g, r)\<close> for a character class \<open>X\<close>: every maximal run of code units
  of the class is replaced by the single unit \<open>r\<close>. The flag says whether the unit just
  before was in the class (the run has already been replaced).
\<close>

fun replace_runs :: "(nat \<Rightarrow> bool) \<Rightarrow> nat \<Rightarrow> bool \<Rightarrow> js_string \<Rightarrow> js_string" where
  "replace_runs X r inrun [] = []"
| "replace_runs X r inrun (c # cs) =
     (if X c then (if inrun then replace_runs X r True cs else r # replace_runs X r True cs)
      else c # replace_runs X r False cs)"

definition trim :: "js_string \<Rightarrow> js_string" where
  "trim s = rev (dropWhile is_space (rev (dropWhile is_space s)))"

text \<open>
  \<^verbatim>\<open>String.prototype.toLowerCase\<close> is a built-in of the language (the Unicode default case
  conversion, which may change the length of a string); it is the parameter \<open>toLowerCase\<close>.
  \<open>lower_ok\<close> states the two facts about it that are used: its result holds no ASCII
  capital letter, and it leaves a string of lower-case ASCII letters, digits, underscores
  and hyphens as it is.
\<close>

definition is_slug_char :: "nat \<Rightarrow> bool" where
  "is_slug_char c = ((48 \<le> c \<and> c \<le> 57) \<or> c = 95 \<or> (97 \<le> c \<and> c \<le> 122) \<or> c = hyphen)"

definition lower_ok :: "(js_string \<Rightarrow> js_string) \<Rightarrow> bool" where
  "lower_ok toLowerCase =
     ((\<forall>s. \<forall>c \<in> set (toLowerCase s). \<not> is_upper c) \<and>
      (\<forall>s. (\<forall>c \<in> set s. is_slug_char c) \<longrightarrow> toLowerCase s = s))"

text \<open>The ASCII part of the conversion, an instance of the parameter.\<close>

definition ascii_lower :: "js_string \<Rightarrow> js_string" where
  "ascii_lower s = map (\<lambda>c. if is_upper c then c + 32 else c) s"

definition generateSlug :: "(js_string \<Rightarrow> js_string) \<Rightarrow> js_string \<Rightarrow> js_string" where
  "generateSlug toLowerCase title =
     trim (replace_runs is_hyphen hyphen False
       (replace_runs is_space hyphen False
         (filter kept (toLowerCase title))))"

text \<open>No two neighbouring code units are both hyphens.\<close>

fun no_double_hyphen :: "js_string \<Rightarrow> bool" where
  "no_double_hyphen [] = True"
| "no_double_hyphen [c] = True"
| "no_double_hyphen (c # d # cs) = (\<not> (c = hyphen \<and> d = hyphen) \<and> no_double_hyphen (d # cs))"

definition starts_hyphen :: "js_string \<Rightarrow> bool" where
  "starts_hyphen s = (case s of [] \<Rightarrow> False | c # _ \<Rightarrow> c = hyphen)"

section \<open>Formatting API records (src/utils/contentManager.ts)\<close>

text \<open>
  What a statement or an expression raises: the \<^verbatim>\<open>TypeError\<close> of JavaScript and the errors
  of the storage engine that the schema of the migration script can cause.
\<close>

datatype error =
    TypeError
  | ER_BAD_NULL_ERROR
  | ER_DUP_ENTRY
  | ER_NO_REFERENCED_ROW
  | ER_DATA_TOO_LONG
  | WARN_DATA_TRUNCATED
  | ER_WARN_DATA_OUT_OF_RANGE

text \<open>
  The argument of \<^verbatim>\<open>formatContentFromApi\<close> has type \<^verbatim>\<open>any\<close>: its fields are JSON values,
  or \<^verbatim>\<open>undefined\<close> when missing. Numbers are the integers of magnitude below \<open>10^21\<close> (the
  ids and flags of the tables are of 32 bits), which print as their decimal digits.
\<close>

datatype js_value =
    JUndefined
  | JNull
  | JBool bool
  | JNumber int
  | JString string
  | JArray "js_value list"
  | JObject "(string \<times> js_value) list"

text \<open>\<^verbatim>\<open>ToBoolean\<close>, the test behind \<^verbatim>\<open>||\<close> and \<^verbatim>\<open>Boolean(...)\<close>.\<close>

fun truthy :: "js_value \<Rightarrow> bool" where
  "truthy JUndefined = False"
| "truthy JNull = False"
| "truthy (JBool b) = b"
| "truthy (JNumber n) = (n \<noteq> 0)"
| "truthy (JString s) = (s \<noteq> [])"
| "truthy (JArray xs) = True"
| "truthy (JObject kvs) = True"

definition js_or :: "js_value \<Rightarrow> js_value \<Rightarrow> js_value" where
  "js_or a b = (if truthy a then a else b)"

fun is_array :: "js_value \<Rightarrow> bool" where
  "is_array (JArray xs) = True"
| "is_array v = False"

text \<open>
  \<^verbatim>\<open>x.toString()\<close>: decimal digits for a number, the elements joined by commas for an array
  (\<^verbatim>\<open>null\<close> and \<^verbatim>\<open>undefined\<close> elements give the empty string); on \<^verbatim>\<open>null\<close> or
  \<^verbatim>\<open>undefined\<close> itself the property access raises a \<^verbatim>\<open>TypeError\<close>.
\<close>

fun show_nat :: "nat \<Rightarrow> string" where
  "show_nat n = (if n < 10 then [''0123456789'' ! n] else show_nat (n div 10) @ [''0123456789'' ! (n mod 10)])"

definition show_int :: "int \<Rightarrow> string" where
  "show_int i = (if i < 0 then CHR ''-'' # show_nat (nat (- i)) else show_nat (nat i))"

fun join :: "string list \<Rightarrow> string" where
  "join [] = []"
| "join [x] = x"
| "join (x # y # ys) = x @ CHR '','' # join (y # ys)"

fun to_str :: "js_value \<Rightarrow> string" where
  "to_str JUndefined = []"
| "to_str JNull = []"
| "to_str (JBool b) = (if b then ''true'' else ''false'')"
| "to_str (JNumber n) = show_int n"
| "to_str (JString s) = s"
| "to_str (JArray xs) = join (map to_str xs)"
| "to_str (JObject kvs) = ''[object Object]''"

definition toString :: "js_value \<Rightarrow> error + string" where
  "toString v = (if v = JUndefined \<or> v = JNull then Inl TypeError else Inr (to_str v))"

record api_content =
  a_id :: js_value
  a_type :: js_value
  a_title :: js_value
  a_content :: js_value
  a_slug :: js_value
  a_author :: js_value
  a_created_at :: js_value
  a_updated_at :: js_value
  a_featured :: js_value
  a_image :: js_value
  a_category :: js_value
  a_tags :: js_value
  a_position :: js_value
  a_company :: js_value

text \<open>The object literal that \<^verbatim>\<open>formatContentFromApi\<close> returns.\<close>

record content_item =
  i_id :: string
  i_type :: js_value
  i_title :: js_value
  i_content :: js_value
  i_slug :: js_value
  i_author :: js_value
  i_createdAt :: js_value
  i_updatedAt :: js_value
  i_featured :: bool
  i_image :: js_value
  i_category :: js_value
  i_tags :: js_value
  i_position :: js_value
  i_company :: js_value

definition formatContentFromApi :: "api_content \<Rightarrow> error + content_item" where
  "formatContentFromApi apiContent =
     (case toString (a_id apiContent) of
        Inl e \<Rightarrow> Inl e
      | Inr id_string \<Rightarrow> Inr
          \<lparr> i_id = id_string,
            i_type = a_type apiContent,
            i_title = a_title apiContent,
            i_content = a_content apiContent,
            i_slug = a_slug apiContent,
            i_author = a_author apiContent,
            i_createdAt = a_created_at apiContent,
            i_updatedAt = a_updated_at apiContent,
            i_featured = truthy (a_featured apiContent),
            i_image = js_or (a_image apiContent) JUndefined,
            i_category = js_or (a_category apiContent) JUndefined,
            i_tags = js_or (a_tags apiContent) (JArray []),
            i_position = js_or (a_position apiContent) JUndefined,
            i_company = js_or (a_company apiContent) JUndefined \<rparr>)"

text \<open>
  What the API sends for a field that may be missing: \<^verbatim>\<open>null\<close> (an SQL \<^verbatim>\<open>NULL\<close>) or the
  empty string. For the tags, the API sends an array or nothing.
\<close>

definition null_or_empty :: "js_value \<Rightarrow> bool" where
  "null_or_empty v = (v = JNull \<or> v = JString [])"

definition no_tags :: "js_value \<Rightarrow> bool" where
  "no_tags v = (v = JUndefined \<or> v = JNull)"

text \<open>A record as the API sends it for a blog post without image, category and tags.\<close>

definition api_example :: api_content where
  "api_example =
     \<lparr> a_id = JNumber 7, a_type = JString ''blog'', a_title = JString ''T'',
       a_content = JString ''C'', a_slug = JString ''t'', a_author = JString ''Admin'',
       a_created_at = JString ''2025-03-02'', a_updated_at = JString ''2025-03-02'',
       a_featured = JNumber 1, a_image = JNull, a_category = JString [],
       a_tags = JUndefined, a_position = JNull, a_company = JNull \<rparr>"

section \<open>The tables (supabase/migrations)\<close>

text \<open>
  The storage engine is outside the repository; its tables and constraints are those the
  migration script declares. A table is the list of its rows. Timestamps are numbers
  (seconds), strings are compared exactly, and the engine runs in strict SQL mode (the
  default), where a value that does not fit a column is an error. A statement fails only
  on a constraint of the schema: faults of the connection are not part of the model. The surrogate key of
  \<^verbatim>\<open>content_tags\<close> is never read by the code and is left out.
\<close>

record content_row =
  c_id :: nat
  c_type :: string
  c_title :: string
  c_content :: string
  c_slug :: string
  c_author :: string
  c_featured :: "bool option"
  c_image :: "string option"
  c_category :: "string option"
  c_position :: "string option"
  c_company :: "string option"
  c_created_at :: nat
  c_updated_at :: nat

record media_row =
  m_id :: nat
  m_type :: string
  m_title :: string
  m_url :: string
  m_thumbnail_url :: "string option"
  m_file_size :: "int option"
  m_dimensions :: "string option"
  m_uploaded_by :: string
  m_created_at :: nat

record store =
  content :: "content_row list"
  content_tags :: "(nat \<times> string) list"
  media :: "media_row list"
  content_auto_increment :: nat
  media_auto_increment :: nat

text \<open>
  The bound parameters of the two statements that write a content row; an absent value
  (\<^verbatim>\<open>undefined\<close>) is sent as \<^verbatim>\<open>NULL\<close>.
\<close>

record content_values =
  v_type :: "string option"
  v_title :: "string option"
  v_content :: "string option"
  v_slug :: "string option"
  v_author :: "string option"
  v_featured :: bool
  v_image :: "string option"
  v_category :: "string option"
  v_position :: "string option"
  v_company :: "string option"

record media_values =
  mv_type :: "string option"
  mv_title :: "string option"
  mv_url :: "string option"
  mv_thumbnail_url :: "string option"
  mv_file_size :: "int option"
  mv_dimensions :: "string option"
  mv_uploaded_by :: "string option"

definition content_types :: "string list" where
  "content_types = [''page'', ''blog'', ''testimonial'']"

definition media_types :: "string list" where
  "media_types = [''image'', ''video'', ''document'']"

definition fits :: "nat \<Rightarrow> string option \<Rightarrow> bool" where
  "fits n x = (case x of None \<Rightarrow> True | Some str \<Rightarrow> length str \<le> n)"

text \<open>
  The column constraints of \<^verbatim>\<open>content\<close>: \<^verbatim>\<open>NOT NULL\<close>, the \<^verbatim>\<open>ENUM\<close> of the type, and the
  lengths of \<^verbatim>\<open>VARCHAR(255)\<close> and \<^verbatim>\<open>TEXT\<close>.
\<close>

definition content_values_error :: "content_values \<Rightarrow> error option" where
  "content_values_error v =
     (if v_type v = None \<or> v_title v = None \<or> v_content v = None \<or> v_slug v = None \<or> v_author v = None
      then Some ER_BAD_NULL_ERROR
      else if the (v_type v) \<notin> set content_types then Some WARN_DATA_TRUNCATED
      else if \<not> (fits 255 (v_title v) \<and> fits 65535 (v_content v) \<and> fits 255 (v_slug v) \<and>
                fits 255 (v_author v) \<and> fits 255 (v_image v) \<and> fits 255 (v_category v) \<and>
                fits 255 (v_position v) \<and> fits 255 (v_company v))
      then Some ER_DATA_TOO_LONG
      else None)"

definition media_values_error :: "media_values \<Rightarrow> error option" where
  "media_values_error v =
     (if mv_type v = None \<or> mv_title v = None \<or> mv_url v = None \<or> mv_uploaded_by v = None
      then Some ER_BAD_NULL_ERROR
      else if the (mv_type v) \<notin> set media_types then Some WARN_DATA_TRUNCATED
      else if \<not> (fits 255 (mv_title v) \<and> fits 255 (mv_url v) \<and> fits 255 (mv_thumbnail_url v) \<and>
                fits 50 (mv_dimensions v) \<and> fits 255 (mv_uploaded_by v))
      then Some ER_DATA_TOO_LONG
      else if (case mv_file_size v of None \<Rightarrow> False | Some n \<Rightarrow> n < - 2147483648 \<or> 2147483647 < n)
      then Some ER_WARN_DATA_OUT_OF_RANGE
      else None)"

subsection \<open>The statements\<close>

text \<open>
  \<^verbatim>\<open>INSERT INTO content (...) VALUES (...)\<close>: the id is the next auto-increment value, both
  timestamps default to the current time; \<open>id\<close> is the primary key and \<open>slug\<close> is unique.
  The result is the \<^verbatim>\<open>insertId\<close>. A statement that fails leaves the tables as they were.
\<close>

definition content_row_of :: "nat \<Rightarrow> nat \<Rightarrow> content_values \<Rightarrow> content_row" where
  "content_row_of insertId now v =
     \<lparr>c_id = insertId, c_type = the (v_type v), c_title = the (v_title v),
       c_content = the (v_content v), c_slug = the (v_slug v),
       c_author = the (v_author v), c_featured = Some (v_featured v),
       c_image = v_image v, c_category = v_category v,
       c_position = v_position v, c_company = v_company v,
       c_created_at = now, c_updated_at = now\<rparr>"

definition insert_content :: "nat \<Rightarrow> content_values \<Rightarrow> store \<Rightarrow> error + (nat \<times> store)" where
  "insert_content now v s =
     (case content_values_error v of
        Some err \<Rightarrow> Inl err
      | None \<Rightarrow>
          (let insertId = content_auto_increment s in
           if insertId \<in> c_id ` set (content s) \<or> the (v_slug v) \<in> c_slug ` set (content s)
           then Inl ER_DUP_ENTRY
           else Inr (insertId,
             s\<lparr>content := content s @ [content_row_of insertId now v],
               content_auto_increment := Suc insertId\<rparr>)))"

text \<open>
  \<^verbatim>\<open>UPDATE content SET type = ?, ... WHERE id = ?\<close>. With no row of that id nothing is
  assigned and nothing can fail. \<^verbatim>\<open>updated_at\<close> is \<^verbatim>\<open>ON UPDATE CURRENT_TIMESTAMP\<close>: it moves
  when a column of the row changes. The result is the number of rows matched.
\<close>

definition set_columns :: "nat \<Rightarrow> content_values \<Rightarrow> content_row \<Rightarrow> content_row" where
  "set_columns now v r =
     (let r' = r\<lparr>c_type := the (v_type v), c_title := the (v_title v),
                  c_content := the (v_content v), c_slug := the (v_slug v),
                  c_author := the (v_author v), c_featured := Some (v_featured v),
                  c_image := v_image v, c_category := v_category v,
                  c_position := v_position v, c_company := v_company v\<rparr>
      in if r' = r then r else r'\<lparr>c_updated_at := now\<rparr>)"

definition update_content :: "nat \<Rightarrow> content_values \<Rightarrow> nat \<Rightarrow> store \<Rightarrow> error + (nat \<times> store)" where
  "update_content now v i s =
     (if \<not> (\<exists>r \<in> set (content s). c_id r = i) then Inr (0, s)
      else case content_values_error v of
        Some err \<Rightarrow> Inl err
      | None \<Rightarrow>
          if \<exists>r \<in> set (content s). c_id r \<noteq> i \<and> c_slug r = the (v_slug v) then Inl ER_DUP_ENTRY
          else Inr (length (filter (\<lambda>r. c_id r = i) (content s)),
            s\<lparr>content := map (\<lambda>r. if c_id r = i then set_columns now v r else r) (content s)\<rparr>))"

text \<open>\<^verbatim>\<open>DELETE FROM content_tags WHERE content_id = ?\<close>\<close>

definition delete_content_tags :: "nat \<Rightarrow> store \<Rightarrow> store" where
  "delete_content_tags i s = s\<lparr>content_tags := filter (\<lambda>(cid, tag). cid \<noteq> i) (content_tags s)\<rparr>"

text \<open>
  \<^verbatim>\<open>INSERT INTO content_tags (content_id, tag) VALUES ?\<close> with a list of pairs: the rows
  go in one after the other; the pair is unique and \<open>content_id\<close> references a content row.
\<close>

fun insert_content_tags :: "(nat \<times> string) list \<Rightarrow> store \<Rightarrow> error + store" where
  "insert_content_tags [] s = Inr s"
| "insert_content_tags ((cid, tag) # rows) s =
     (if 255 < length tag then Inl ER_DATA_TOO_LONG
      else if (cid, tag) \<in> set (content_tags s) then Inl ER_DUP_ENTRY
      else if cid \<notin> c_id ` set (content s) then Inl ER_NO_REFERENCED_ROW
      else insert_content_tags rows (s\<lparr>content_tags := content_tags s @ [(cid, tag)]\<rparr>))"

text \<open>
  \<^verbatim>\<open>DELETE FROM content WHERE id = ?\<close>; the tags of a deleted row go with it
  (\<^verbatim>\<open>ON DELETE CASCADE\<close>). The result is \<^verbatim>\<open>affectedRows\<close>.
\<close>

definition delete_content :: "nat \<Rightarrow> store \<Rightarrow> nat \<times> store" where
  "delete_content i s =
     (let deleted = filter (\<lambda>r. c_id r = i) (content s) in
      (length deleted,
       s\<lparr>content := filter (\<lambda>r. c_id r \<noteq> i) (content s),
         content_tags := filter (\<lambda>(cid, tag). cid \<notin> c_id ` set deleted) (content_tags s)\<rparr>))"

text \<open>
  \<^verbatim>\<open>SELECT * FROM content [WHERE type = ?] ORDER BY updated_at DESC\<close>. The engine promises
  no order among equal timestamps; here they come in reverse table order.
\<close>

definition order_by_desc :: "('a \<Rightarrow> nat) \<Rightarrow> 'a list \<Rightarrow> 'a list" where
  "order_by_desc key rows = rev (sort_key key rows)"

definition select_content :: "string option \<Rightarrow> store \<Rightarrow> content_row list" where
  "select_content type_filter s =
     order_by_desc c_updated_at
       (case type_filter of
          None \<Rightarrow> content s
        | Some t \<Rightarrow> filter (\<lambda>r. c_type r = t) (content s))"

definition select_content_by_id :: "nat \<Rightarrow> store \<Rightarrow> content_row list" where
  "select_content_by_id i s = filter (\<lambda>r. c_id r = i) (content s)"

text \<open>
  \<^verbatim>\<open>SELECT tag FROM content_tags WHERE content_id = ?\<close>, then \<^verbatim>\<open>tags.map(t => t.tag)\<close>. The
  engine promises no order here either; the rows come in table order.
\<close>

definition select_tags :: "nat \<Rightarrow> store \<Rightarrow> string list" where
  "select_tags i s = map snd (filter (\<lambda>(cid, tag). cid = i) (content_tags s))"

definition insert_media :: "nat \<Rightarrow> media_values \<Rightarrow> store \<Rightarrow> error + (nat \<times> store)" where
  "insert_media now v s =
     (case media_values_error v of
        Some err \<Rightarrow> Inl err
      | None \<Rightarrow>
          (let insertId = media_auto_increment s in
           if insertId \<in> m_id ` set (media s) then Inl ER_DUP_ENTRY
           else Inr (insertId,
             s\<lparr>media := media s @
                  [\<lparr>m_id = insertId, m_type = the (mv_type v), m_title = the (mv_title v),
                    m_url = the (mv_url v), m_thumbnail_url = mv_thumbnail_url v,
                    m_file_size = mv_file_size v, m_dimensions = mv_dimensions v,
                    m_uploaded_by = the (mv_uploaded_by v), m_created_at = now\<rparr>],
               media_auto_increment := Suc insertId\<rparr>)))"

definition select_media :: "string option \<Rightarrow> store \<Rightarrow> media_row list" where
  "select_media type_filter s =
     order_by_desc m_created_at
       (case type_filter of
          None \<Rightarrow> media s
        | Some t \<Rightarrow> filter (\<lambda>r. m_type r = t) (media s))"

definition select_media_by_id :: "nat \<Rightarrow> store \<Rightarrow> media_row list" where
  "select_media_by_id i s = filter (\<lambda>r. m_id r = i) (media s)"

definition delete_media :: "nat \<Rightarrow> store \<Rightarrow> nat \<times> store" where
  "delete_media i s =
     (length (filter (\<lambda>r. m_id r = i) (media s)),
      s\<lparr>media := filter (\<lambda>r. m_id r \<noteq> i) (media s)\<rparr>)"

subsection \<open>A connection and its transaction\<close>

text \<open>
  A connection taken from the pool works on the store; \<^verbatim>\<open>beginTransaction\<close> remembers the
  tables, \<^verbatim>\<open>rollback\<close> puts them back (the auto-increment counters are not transactional)
  and does nothing when no transaction is open, \<^verbatim>\<open>commit\<close> closes the transaction. The
  store that \<^verbatim>\<open>release\<close> hands back is what the other connections see: the writes of a
  transaction that is still open are not in it.
\<close>

record connection =
  db :: store
  snapshot :: "store option"

definition getConnection :: "store \<Rightarrow> connection" where
  "getConnection s = \<lparr>db = s, snapshot = None\<rparr>"

definition release :: "connection \<Rightarrow> store" where
  "release c =
     (case snapshot c of
        None \<Rightarrow> db c
      | Some s0 \<Rightarrow> (db c)\<lparr>content := content s0, content_tags := content_tags s0, media := media s0\<rparr>)"

definition beginTransaction :: "connection \<Rightarrow> connection" where
  "beginTransaction c = c\<lparr>snapshot := Some (db c)\<rparr>"

definition commit :: "connection \<Rightarrow> connection" where
  "commit c = c\<lparr>snapshot := None\<rparr>"

definition rollback :: "connection \<Rightarrow> connection" where
  "rollback c =
     (case snapshot c of
        None \<Rightarrow> c
      | Some s0 \<Rightarrow>
          \<lparr>db = (db c)\<lparr>content := content s0, content_tags := content_tags s0, media := media s0\<rparr>,
            snapshot = None\<rparr>)"

section \<open>Requests and responses\<close>

text \<open>
  The decoded token payload, the parts of a request that the routes read (the
  \<^verbatim>\<open>x-auth-token\<close> header, \<^verbatim>\<open>req.user\<close>, the numeric \<^verbatim>\<open>:id\<close> of the path, the \<^verbatim>\<open>type\<close> of the
  query string, the JSON body) and the response (status and JSON body).
\<close>

record user =
  user_id :: nat
  role :: string

record content_body =
  b_type :: "string option"
  b_title :: "string option"
  b_content :: "string option"
  b_slug :: "string option"
  b_author :: "string option"
  b_featured :: "bool option"
  b_image :: "string option"
  b_category :: "string option"
  b_tags :: "string list option"
  b_position :: "string option"
  b_company :: "string option"

record media_body =
  mb_type :: "string option"
  mb_title :: "string option"
  mb_url :: "string option"
  mb_thumbnail_url :: "string option"
  mb_file_size :: "int option"
  mb_dimensions :: "string option"
  mb_uploaded_by :: "string option"

record request =
  x_auth_token :: "string option"
  req_user :: "user option"
  params_id :: nat
  query_type :: "string option"
  body :: content_body
  media_fields :: media_body

datatype json =
    Message string
  | ContentJson content_row "string list"
  | ContentListJson "(content_row \<times> string list) list"
  | MediaJson media_row
  | MediaListJson "media_row list"
  | NoJson

record response =
  status :: nat
  json :: json

section \<open>The middleware (server/middleware/auth.ts)\<close>

text \<open>
  \<^verbatim>\<open>process.env.JWT_SECRET || "d569..."\<close>, evaluated when the module is loaded: the variable
  of the environment when it is set and not empty, the key written in the source otherwise.
\<close>

definition FALLBACK_SECRET :: string where
  "FALLBACK_SECRET = ''d5692e8f3e1bd1fe110cd2766a3a074f41898372a1e5458a4fabf6d62683844c''"

definition JWT_SECRET :: "string option \<Rightarrow> string" where
  "JWT_SECRET env =
     (case env of
        None \<Rightarrow> FALLBACK_SECRET
      | Some k \<Rightarrow> if k \<noteq> [] then k else FALLBACK_SECRET)"

text \<open>
  A middleware answers the request or hands it on (\<^verbatim>\<open>next()\<close>). \<^verbatim>\<open>jwt.verify\<close> belongs to a
  library: it is the parameter \<open>verify\<close>, which gives the payload of a token that is valid
  for the key and nothing when the library raises.
\<close>

datatype outcome = Responded response | Next request

type_synonym jwt_verify = "string \<Rightarrow> string \<Rightarrow> user option"

definition authenticate :: "jwt_verify \<Rightarrow> string \<Rightarrow> request \<Rightarrow> outcome" where
  "authenticate verify secret req =
     (case x_auth_token req of
        None \<Rightarrow> Responded \<lparr>status = 401, json = Message ''No token, authorization denied''\<rparr>
      | Some token \<Rightarrow>
          if token = [] then Responded \<lparr>status = 401, json = Message ''No token, authorization denied''\<rparr>
          else (case verify token secret of
                  Some decoded \<Rightarrow> Next (req\<lparr>req_user := Some decoded\<rparr>)
                | None \<Rightarrow> Responded \<lparr>status = 401, json = Message ''Token is not valid''\<rparr>))"

definition isAdmin :: "request \<Rightarrow> outcome" where
  "isAdmin req =
     (case req_user req of
        None \<Rightarrow> Responded \<lparr>status = 401, json = Message ''Not authenticated''\<rparr>
      | Some u \<Rightarrow>
          if role u \<noteq> ''admin''
          then Responded \<lparr>status = 403, json = Message ''Access denied. Admin role required.''\<rparr>
          else Next req)"

section \<open>The content routes (server/routes/content)\<close>

definition or_false :: "bool option \<Rightarrow> bool" where
  "or_false featured = (case featured of None \<Rightarrow> False | Some b \<Rightarrow> b)"

definition values_of :: "content_body \<Rightarrow> content_values" where
  "values_of b =
     \<lparr>v_type = b_type b, v_title = b_title b, v_content = b_content b, v_slug = b_slug b,
       v_author = b_author b, v_featured = or_false (b_featured b), v_image = b_image b,
       v_category = b_category b, v_position = b_position b, v_company = b_company b\<rparr>"

text \<open>\<^verbatim>\<open>tags && tags.length > 0\<close> and the tags then inserted.\<close>

definition has_tags :: "string list option \<Rightarrow> bool" where
  "has_tags tags = (case tags of None \<Rightarrow> False | Some ts \<Rightarrow> 0 < length ts)"

definition tags_of :: "string list option \<Rightarrow> string list" where
  "tags_of tags = (case tags of None \<Rightarrow> [] | Some ts \<Rightarrow> ts)"

text \<open>\<^verbatim>\<open>GET /\<close>: the rows, each with its tags.\<close>

definition listContent :: "request \<Rightarrow> store \<Rightarrow> response \<times> store" where
  "listContent req s =
     (let type_filter = (case query_type req of None \<Rightarrow> None | Some t \<Rightarrow> if t \<noteq> [] then Some t else None);
          rows = select_content type_filter s
      in (\<lparr>status = 200, json = ContentListJson (map (\<lambda>item. (item, select_tags (c_id item) s)) rows)\<rparr>, s))"

text \<open>\<^verbatim>\<open>GET /:id\<close>\<close>

definition getContent :: "request \<Rightarrow> store \<Rightarrow> response \<times> store" where
  "getContent req s =
     (case select_content_by_id (params_id req) s of
        [] \<Rightarrow> (\<lparr>status = 404, json = Message ''Content not found''\<rparr>, s)
      | contentItem # _ \<Rightarrow>
          (\<lparr>status = 200, json = ContentJson contentItem (select_tags (c_id contentItem) s)\<rparr>, s))"

text \<open>
  \<^verbatim>\<open>POST /\<close>. \<open>create_try\<close> is the inner \<^verbatim>\<open>try\<close> block: it ends with the created record or
  with what was raised, and with the connection as it is at that point. Reading
  \<^verbatim>\<open>newContent[0]\<close> of an empty result gives \<^verbatim>\<open>undefined\<close>, and setting its \<^verbatim>\<open>tags\<close> raises.
\<close>

definition create_try :: "nat \<Rightarrow> content_body \<Rightarrow> connection \<Rightarrow> (error + content_row \<times> string list) \<times> connection" where
  "create_try now b c0 =
     (let c1 = beginTransaction c0 in
      case insert_content now (values_of b) (db c1) of
        Inl err \<Rightarrow> (Inl err, c1)
      | Inr (contentId, s2) \<Rightarrow>
          (case (if has_tags (b_tags b)
                 then insert_content_tags (map (\<lambda>tag. (contentId, tag)) (tags_of (b_tags b))) s2
                 else Inr s2) of
             Inl err \<Rightarrow> (Inl err, c1\<lparr>db := s2\<rparr>)
           | Inr s3 \<Rightarrow>
               (let c4 = commit (c1\<lparr>db := s3\<rparr>) in
                case select_content_by_id contentId (db c4) of
                  [] \<Rightarrow> (Inl TypeError, c4)
                | createdContent # _ \<Rightarrow>
                    (Inr (createdContent, select_tags contentId (db c4)), c4))))"

text \<open>
  The inner \<^verbatim>\<open>try\<close> with its \<^verbatim>\<open>catch\<close>: on an error the transaction is rolled back, the
  connection released and the error raised again.
\<close>

definition createContent :: "nat \<Rightarrow> content_body \<Rightarrow> store \<Rightarrow> (error + content_row \<times> string list) \<times> store" where
  "createContent now b s =
     (case create_try now b (getConnection s) of
        (Inr created, c) \<Rightarrow> (Inr created, release c)
      | (Inl err, c) \<Rightarrow> (Inl err, release (rollback c)))"

text \<open>The handler: the outer \<^verbatim>\<open>catch\<close> turns any error into the response 500.\<close>

definition post_content :: "nat \<Rightarrow> request \<Rightarrow> store \<Rightarrow> response \<times> store" where
  "post_content now req s =
     (case createContent now (body req) s of
        (Inr (createdContent, tags), s') \<Rightarrow> (\<lparr>status = 201, json = ContentJson createdContent tags\<rparr>, s')
      | (Inl err, s') \<Rightarrow> (\<lparr>status = 500, json = Message ''Server error''\<rparr>, s'))"

text \<open>\<^verbatim>\<open>PUT /:id\<close>, in the same three layers.\<close>

definition update_try :: "nat \<Rightarrow> nat \<Rightarrow> content_body \<Rightarrow> connection \<Rightarrow> (error + content_row \<times> string list) \<times> connection" where
  "update_try now i b c0 =
     (let c1 = beginTransaction c0 in
      case update_content now (values_of b) i (db c1) of
        Inl err \<Rightarrow> (Inl err, c1)
      | Inr (affectedRows, s2) \<Rightarrow>
          (let s3 = delete_content_tags i s2 in
           case (if has_tags (b_tags b)
                 then insert_content_tags (map (\<lambda>tag. (i, tag)) (tags_of (b_tags b))) s3
                 else Inr s3) of
             Inl err \<Rightarrow> (Inl err, c1\<lparr>db := s3\<rparr>)
           | Inr s4 \<Rightarrow>
               (let c5 = commit (c1\<lparr>db := s4\<rparr>) in
                case select_content_by_id i (db c5) of
                  [] \<Rightarrow> (Inl TypeError, c5)
                | result # _ \<Rightarrow> (Inr (result, select_tags i (db c5)), c5))))"

definition updateContent :: "nat \<Rightarrow> nat \<Rightarrow> content_body \<Rightarrow> store \<Rightarrow> (error + content_row \<times> string list) \<times> store" where
  "updateContent now i b s =
     (case update_try now i b (getConnection s) of
        (Inr updated, c) \<Rightarrow> (Inr updated, release c)
      | (Inl err, c) \<Rightarrow> (Inl err, release (rollback c)))"

definition put_content :: "nat \<Rightarrow> request \<Rightarrow> store \<Rightarrow> response \<times> store" where
  "put_content now req s =
     (case updateContent now (params_id req) (body req) s of
        (Inr (result, tags), s') \<Rightarrow> (\<lparr>status = 200, json = ContentJson result tags\<rparr>, s')
      | (Inl err, s') \<Rightarrow> (\<lparr>status = 500, json = Message ''Server error''\<rparr>, s'))"

text \<open>\<^verbatim>\<open>DELETE /:id\<close>\<close>

definition deleteContent :: "request \<Rightarrow> store \<Rightarrow> response \<times> store" where
  "deleteContent req s =
     (case delete_content (params_id req) s of
        (affectedRows, s') \<Rightarrow>
          if affectedRows = 0 then (\<lparr>status = 404, json = Message ''Content not found''\<rparr>, s')
          else (\<lparr>status = 200, json = Message ''Content deleted''\<rparr>, s'))"

section \<open>The media routes (server/routes/media.ts)\<close>

definition media_values_of :: "media_body \<Rightarrow> media_values" where
  "media_values_of b =
     \<lparr>mv_type = mb_type b, mv_title = mb_title b, mv_url = mb_url b,
       mv_thumbnail_url = mb_thumbnail_url b, mv_file_size = mb_file_size b,
       mv_dimensions = mb_dimensions b, mv_uploaded_by = mb_uploaded_by b\<rparr>"

definition listMedia :: "request \<Rightarrow> store \<Rightarrow> response \<times> store" where
  "listMedia req s =
     (let type_filter = (case query_type req of None \<Rightarrow> None | Some t \<Rightarrow> if t \<noteq> [] then Some t else None)
      in (\<lparr>status = 200, json = MediaListJson (select_media type_filter s)\<rparr>, s))"

definition getMedia :: "request \<Rightarrow> store \<Rightarrow> response \<times> store" where
  "getMedia req s =
     (case select_media_by_id (params_id req) s of
        [] \<Rightarrow> (\<lparr>status = 404, json = Message ''Media not found''\<rparr>, s)
      | m # _ \<Rightarrow> (\<lparr>status = 200, json = MediaJson m\<rparr>, s))"

definition createMedia :: "nat \<Rightarrow> request \<Rightarrow> store \<Rightarrow> response \<times> store" where
  "createMedia now req s =
     (case insert_media now (media_values_of (media_fields req)) s of
        Inl err \<Rightarrow> (\<lparr>status = 500, json = Message ''Server error''\<rparr>, s)
      | Inr (insertId, s') \<Rightarrow>
          (case select_media_by_id insertId s' of
             [] \<Rightarrow> (\<lparr>status = 201, json = NoJson\<rparr>, s')
           | newMedia # _ \<Rightarrow> (\<lparr>status = 201, json = MediaJson newMedia\<rparr>, s')))"

definition deleteMedia :: "request \<Rightarrow> store \<Rightarrow> response \<times> store" where
  "deleteMedia req s =
     (case delete_media (params_id req) s of
        (affectedRows, s') \<Rightarrow>
          if affectedRows = 0 then (\<lparr>status = 404, json = Message ''Media not found''\<rparr>, s')
          else (\<lparr>status = 200, json = Message ''Media deleted''\<rparr>, s'))"

section \<open>The routers\<close>

text \<open>
  \<^verbatim>\<open>router.post('/', authenticate, isAdmin, handler)\<close>: the middleware run in the order
  written, and the first that answers ends the request.
\<close>

type_synonym handler = "request \<Rightarrow> store \<Rightarrow> response \<times> store"

fun run :: "(request \<Rightarrow> outcome) list \<Rightarrow> handler \<Rightarrow> handler" where
  "run [] h req s = h req s"
| "run (m # ms) h req s =
     (case m req of
        Responded res \<Rightarrow> (res, s)
      | Next req' \<Rightarrow> run ms h req' s)"

datatype route =
    GET_content
  | GET_content_id
  | POST_content
  | PUT_content_id
  | DELETE_content_id
  | GET_media
  | GET_media_id
  | POST_media
  | DELETE_media_id

definition router :: "jwt_verify \<Rightarrow> string option \<Rightarrow> nat \<Rightarrow> route \<Rightarrow> handler" where
  "router verify env now r =
     (let auth = authenticate verify (JWT_SECRET env) in
      case r of
        GET_content \<Rightarrow> run [] listContent
      | GET_content_id \<Rightarrow> run [] getContent
      | POST_content \<Rightarrow> run [auth, isAdmin] (post_content now)
      | PUT_content_id \<Rightarrow> run [auth, isAdmin] (put_content now)
      | DELETE_content_id \<Rightarrow> run [auth, isAdmin] deleteContent
      | GET_media \<Rightarrow> run [] listMedia
      | GET_media_id \<Rightarrow> run [] getMedia
      | POST_media \<Rightarrow> run [auth, isAdmin] (createMedia now)
      | DELETE_media_id \<Rightarrow> run [auth, isAdmin] deleteMedia)"

text \<open>The routes that write: \<^verbatim>\<open>POST\<close>, \<^verbatim>\<open>PUT\<close> and \<^verbatim>\<open>DELETE\<close>.\<close>

fun mutating :: "route \<Rightarrow> bool" where
  "mutating POST_content = True"
| "mutating PUT_content_id = True"
| "mutating DELETE_content_id = True"
| "mutating POST_media = True"
| "mutating DELETE_media_id = True"
| "mutating r = False"

text \<open>The handler a route ends in.\<close>

fun handler_of :: "nat \<Rightarrow> route \<Rightarrow> handler" where
  "handler_of now GET_content = listContent"
| "handler_of now GET_content_id = getContent"
| "handler_of now POST_content = post_content now"
| "handler_of now PUT_content_id = put_content now"
| "handler_of now DELETE_content_id = deleteContent"
| "handler_of now GET_media = listMedia"
| "handler_of now GET_media_id = getMedia"
| "handler_of now POST_media = createMedia now"
| "handler_of now DELETE_media_id = deleteMedia"

section \<open>A store and a request for the examples\<close>

definition home_page :: content_row where
  "home_page =
     \<lparr>c_id = 1, c_type = ''page'', c_title = ''Home'', c_content = ''Welcome'', c_slug = ''home'',
       c_author = ''Admin'', c_featured = Some False, c_image = None, c_category = None,
       c_position = None, c_company = None, c_created_at = 10, c_updated_at = 10\<rparr>"

definition blog_post :: content_row where
  "blog_post =
     \<lparr>c_id = 5, c_type = ''blog'', c_title = ''The Future'', c_content = ''Explore'', c_slug = ''future'',
       c_author = ''Admin'', c_featured = Some True, c_image = None, c_category = Some ''Technology'',
       c_position = None, c_company = None, c_created_at = 20, c_updated_at = 20\<rparr>"

definition dashboard_preview :: media_row where
  "dashboard_preview =
     \<lparr>m_id = 1, m_type = ''image'', m_title = ''Dashboard Preview'', m_url = ''https://x/y'',
       m_thumbnail_url = None, m_file_size = None, m_dimensions = Some ''1920x1080'',
       m_uploaded_by = ''Admin'', m_created_at = 30\<rparr>"

definition example_store :: store where
  "example_store =
     \<lparr>content = [home_page, blog_post],
       content_tags = [(5, ''AI''), (5, ''Education'')],
       media = [dashboard_preview],
       content_auto_increment = 9,
       media_auto_increment = 3\<rparr>"

text \<open>A token library that knows two tokens, whatever the key.\<close>

definition example_verify :: jwt_verify where
  "example_verify token key =
     (if token = ''admin-token'' then Some \<lparr>user_id = 1, role = ''admin''\<rparr>
      else if token = ''editor-token'' then Some \<lparr>user_id = 2, role = ''editor''\<rparr>
      else None)"

definition example_body :: content_body where
  "example_body =
     \<lparr>b_type = Some ''blog'', b_title = Some ''X'', b_content = Some ''Y'', b_slug = Some ''x'',
       b_author = Some ''A'', b_featured = None, b_image = None, b_category = None,
       b_tags = Some [''ai'', ''edu''], b_position = None, b_company = None\<rparr>"

definition example_media_body :: media_body where
  "example_media_body =
     \<lparr>mb_type = Some ''image'', mb_title = Some ''Logo'', mb_url = Some ''https://x/logo'',
       mb_thumbnail_url = None, mb_file_size = Some 1024, mb_dimensions = None,
       mb_uploaded_by = Some ''Admin''\<rparr>"

definition example_request :: request where
  "example_request =
     \<lparr>x_auth_token = None, req_user = None, params_id = 5, query_type = None,
       body = example_body, media_fields = example_media_body\<rparr>"

section \<open>Notions used in the statements\<close>

text \<open>The rows of a list response, without their tags.\<close>

fun listed_rows :: "json \<Rightarrow> content_row list" where
  "listed_rows (ContentListJson items) = map fst items"
| "listed_rows j = []"

text \<open>The \<^verbatim>\<open>ENUM\<close> of the type column holds for every stored row.\<close>

definition types_valid :: "store \<Rightarrow> bool" where
  "types_valid s = (\<forall>r \<in> set (content s). c_type r \<in> set content_types)"




text \<open>An update of id 7, which the example store does not hold, with no tags.\<close>

definition missing_update :: request where
  "missing_update =
     example_request\<lparr>x_auth_token := Some ''admin-token'', params_id := 7,
       body := example_body\<lparr>b_tags := None\<rparr>\<rparr>"

section \<open>Properties of the slug\<close>

lemma replace_runs_id: "\<forall>c\<in>set s. \<not> X c \<Longrightarrow> replace_runs X r b s = s"
  by (induction s arbitrary: b) auto

lemma replace_runs_set: "set (replace_runs X r b s) \<subseteq> insert r {c \<in> set s. \<not> X c}"
  by (induction s arbitrary: b) auto

lemma no_double_hyphen_Cons:
  "no_double_hyphen (c # s) = (\<not> (c = hyphen \<and> starts_hyphen s) \<and> no_double_hyphen s)"
  by (cases s) (simp_all add: starts_hyphen_def)

lemma collapse_hyphens_shape:
  "no_double_hyphen (replace_runs is_hyphen hyphen b s) \<and>
   (b \<longrightarrow> \<not> starts_hyphen (replace_runs is_hyphen hyphen b s))"
proof (induction s arbitrary: b)
  case Nil
  show ?case by (simp add: starts_hyphen_def)
next
  case (Cons c cs)
  show ?case
  proof (cases "is_hyphen c")
    case True
    then show ?thesis
      using Cons.IH [of True] by (cases b) (simp_all add: no_double_hyphen_Cons)
  next
    case False
    then show ?thesis
      using Cons.IH [of False]
      by (simp add: no_double_hyphen_Cons is_hyphen_def starts_hyphen_def)
  qed
qed

lemma collapse_hyphens_id:
  "no_double_hyphen s \<Longrightarrow> (b \<longrightarrow> \<not> starts_hyphen s) \<Longrightarrow> replace_runs is_hyphen hyphen b s = s"
proof (induction s arbitrary: b)
  case Nil
  show ?case by simp
next
  case (Cons c cs)
  from Cons.prems(1) have nd: "no_double_hyphen cs" and st: "\<not> (c = hyphen \<and> starts_hyphen cs)"
    by (simp_all add: no_double_hyphen_Cons)
  show ?case
  proof (cases "is_hyphen c")
    case True
    with Cons.prems(2) have nb: "\<not> b" by (simp add: starts_hyphen_def is_hyphen_def)
    from True st have "\<not> starts_hyphen cs" by (simp add: is_hyphen_def)
    with nd have "replace_runs is_hyphen hyphen True cs = cs" by (simp add: Cons.IH)
    moreover from True have "c = hyphen" by (simp add: is_hyphen_def)
    ultimately show ?thesis using True nb by simp
  next
    case False
    from nd have "replace_runs is_hyphen hyphen False cs = cs" by (simp add: Cons.IH)
    with False show ?thesis by simp
  qed
qed

lemma trim_id: "\<forall>c\<in>set s. \<not> is_space c \<Longrightarrow> trim s = s"
proof -
  assume a: "\<forall>c\<in>set s. \<not> is_space c"
  have d: "dropWhile is_space t = t" if "\<forall>c\<in>set t. \<not> is_space c" for t
    using that by (cases t) simp_all
  from a have "dropWhile is_space s = s" by (rule d)
  moreover from a have "dropWhile is_space (rev s) = rev s" by (intro d) simp
  ultimately show ?thesis by (simp add: trim_def)
qed

lemma hyphen_not_space: "\<not> is_space hyphen"
  by (simp add: is_space_def hyphen_def)

lemma slug_stages_no_space:
  "\<forall>c\<in>set (replace_runs is_hyphen hyphen False (replace_runs is_space hyphen False s)). \<not> is_space c"
proof -
  let ?t = "replace_runs is_space hyphen False s"
  have "\<forall>c\<in>set ?t. \<not> is_space c"
    using replace_runs_set [of is_space hyphen False s] hyphen_not_space by auto
  then show ?thesis
    using replace_runs_set [of is_hyphen hyphen False ?t] hyphen_not_space by auto
qed

lemma generateSlug_untrimmed:
  "generateSlug lc s =
     replace_runs is_hyphen hyphen False (replace_runs is_space hyphen False (filter kept (lc s)))"
  unfolding generateSlug_def by (rule trim_id) (rule slug_stages_no_space)

lemma generateSlug_no_space: "\<forall>c\<in>set (generateSlug lc s). \<not> is_space c"
  unfolding generateSlug_untrimmed by (rule slug_stages_no_space)

lemma generateSlug_no_double_hyphen: "no_double_hyphen (generateSlug lc s)"
  unfolding generateSlug_untrimmed using collapse_hyphens_shape [of False] by simp

lemma generateSlug_kept: "set (generateSlug lc s) \<subseteq> insert hyphen {c \<in> set (lc s). kept c}"
proof -
  let ?f = "filter kept (lc s)"
  let ?t = "replace_runs is_space hyphen False ?f"
  have "set ?t \<subseteq> insert hyphen (set ?f)"
    using replace_runs_set [of is_space hyphen False ?f] by auto
  moreover have "set (replace_runs is_hyphen hyphen False ?t) \<subseteq> insert hyphen (set ?t)"
    using replace_runs_set [of is_hyphen hyphen False ?t] by auto
  ultimately show ?thesis unfolding generateSlug_untrimmed by auto
qed

lemma slug_char_cases:
  "kept c \<Longrightarrow> \<not> is_space c \<Longrightarrow> \<not> is_upper c \<Longrightarrow> is_slug_char c"
  by (auto simp: kept_def is_word_def is_hyphen_def is_upper_def is_slug_char_def)

lemma slug_char_kept: "is_slug_char c \<Longrightarrow> kept c"
  by (auto simp: kept_def is_word_def is_hyphen_def is_slug_char_def)

lemma generateSlug_chars:
  assumes "lower_ok lc"
  shows "\<forall>c\<in>set (generateSlug lc s). is_slug_char c"
proof
  fix c assume c: "c \<in> set (generateSlug lc s)"
  from assms have up: "\<forall>c\<in>set (lc s). \<not> is_upper c" by (simp add: lower_ok_def)
  have hs: "is_slug_char hyphen" by (simp add: is_slug_char_def)
  from c generateSlug_no_space have ns: "\<not> is_space c" by blast
  from c generateSlug_kept have "c = hyphen \<or> (c \<in> set (lc s) \<and> kept c)" by blast
  then show "is_slug_char c"
    using hs up ns slug_char_cases by blast
qed

lemma generateSlug_fixed:
  assumes ok: "lower_ok lc" and ch: "\<forall>c\<in>set t. is_slug_char c"
    and ns: "\<forall>c\<in>set t. \<not> is_space c" and nd: "no_double_hyphen t"
  shows "generateSlug lc t = t"
proof -
  from ok ch have "lc t = t" by (simp add: lower_ok_def)
  moreover from ch have "filter kept t = t" by (simp add: slug_char_kept)
  moreover from ns have "replace_runs is_space hyphen False t = t" by (rule replace_runs_id)
  moreover from nd have "replace_runs is_hyphen hyphen False t = t" by (simp add: collapse_hyphens_id)
  ultimately show ?thesis by (simp add: generateSlug_untrimmed)
qed

lemma lower_ok_ascii_lower: "lower_ok ascii_lower"
proof -
  have "\<not> is_upper c" if "c \<in> set (ascii_lower s)" for c s
    using that by (auto simp: ascii_lower_def is_upper_def)
  moreover have "ascii_lower s = s" if "\<forall>c\<in>set s. is_slug_char c" for s
    unfolding ascii_lower_def
    using that by (intro map_idI) (auto simp: is_slug_char_def is_upper_def hyphen_def)
  ultimately show ?thesis unfolding lower_ok_def by blast
qed

text \<open>
  C9: \<^verbatim>\<open>generateSlug\<close> is idempotent, \<open>generateSlug (generateSlug s) = generateSlug s\<close> for
  every string \<open>s\<close> (given the two facts \<open>lower_ok\<close> about the built-in lower-casing),
  and its result holds no white space and no two hyphens in a row.
\<close>

theorem generateSlug_idempotent:
  "(lower_ok toLowerCase \<longrightarrow>
      generateSlug toLowerCase (generateSlug toLowerCase s) = generateSlug toLowerCase s) \<and>
   (\<forall>c\<in>set (generateSlug toLowerCase s). \<not> is_space c) \<and>
   no_double_hyphen (generateSlug toLowerCase s)"
  using generateSlug_fixed [OF _ generateSlug_chars generateSlug_no_space generateSlug_no_double_hyphen]
    generateSlug_no_space generateSlug_no_double_hyphen
  by blast

theorem generateSlug_idempotent_witness:
  "lower_ok ascii_lower \<and>
   generateSlug ascii_lower [72,101,108,108,111,32,32,45,45,32,87,33,111,114,108,100,32]
     = [104,101,108,108,111,45,119,111,114,108,100,45] \<and>
   generateSlug ascii_lower (generateSlug ascii_lower [72,101,108,108,111,32,32,45,45,32,87,33,111,114,108,100,32])
     = generateSlug ascii_lower [72,101,108,108,111,32,32,45,45,32,87,33,111,114,108,100,32] \<and>
   no_double_hyphen (generateSlug ascii_lower [72,101,108,108,111,32,32,45,45,32,87,33,111,114,108,100,32])"
proof -
  have v: "generateSlug ascii_lower [72,101,108,108,111,32,32,45,45,32,87,33,111,114,108,100,32]
     = [104,101,108,108,111,45,119,111,114,108,100,45]"
    by (simp add: generateSlug_def ascii_lower_def trim_def kept_def is_word_def is_space_def
        is_hyphen_def is_upper_def hyphen_def)
  show ?thesis
    using generateSlug_idempotent [of ascii_lower "[72,101,108,108,111,32,32,45,45,32,87,33,111,114,108,100,32]"]
      lower_ok_ascii_lower v
    by blast
qed

section \<open>Properties of the formatted item\<close>

lemma formatContentFromApi_returns:
  "(\<exists>item. formatContentFromApi a = Inr item) = (a_id a \<noteq> JUndefined \<and> a_id a \<noteq> JNull)"
  by (simp add: formatContentFromApi_def toString_def)

lemma js_or_absent: "null_or_empty v \<Longrightarrow> js_or v JUndefined = JUndefined"
  by (auto simp: null_or_empty_def js_or_def)

lemma js_or_tags: "is_array v \<or> no_tags v \<Longrightarrow> is_array (js_or v (JArray []))"
  by (auto simp: no_tags_def js_or_def)

lemma js_or_no_tags: "no_tags v \<Longrightarrow> js_or v (JArray []) = JArray []"
  by (auto simp: no_tags_def js_or_def)

text \<open>
  C10: for every API response record (one with an id; its tags an array or missing),
  \<^verbatim>\<open>formatContentFromApi\<close> returns an item whose tags are an array, the empty array when the
  record carries no tags, whose \<open>featured\<close> is a boolean, and whose \<open>image\<close>, \<open>category\<close>,
  \<open>position\<close> and \<open>company\<close> are \<^verbatim>\<open>undefined\<close> whenever the API value is \<^verbatim>\<open>null\<close> or the
  empty string.
\<close>

theorem formatContentFromApi_normalizes:
  assumes "a_id a \<noteq> JUndefined" and "a_id a \<noteq> JNull"
  shows "\<exists>item. formatContentFromApi a = Inr item \<and>
     (is_array (a_tags a) \<or> no_tags (a_tags a) \<longrightarrow> is_array (i_tags item)) \<and>
     (no_tags (a_tags a) \<longrightarrow> i_tags item = JArray []) \<and>
     i_featured item = truthy (a_featured a) \<and>
     (null_or_empty (a_image a) \<longrightarrow> i_image item = JUndefined) \<and>
     (null_or_empty (a_category a) \<longrightarrow> i_category item = JUndefined) \<and>
     (null_or_empty (a_position a) \<longrightarrow> i_position item = JUndefined) \<and>
     (null_or_empty (a_company a) \<longrightarrow> i_company item = JUndefined)"
  using assms
  by (simp add: formatContentFromApi_def toString_def js_or_absent js_or_tags js_or_no_tags)

theorem formatContentFromApi_normalizes_witness:
  "formatContentFromApi api_example =
     Inr \<lparr> i_id = ''7'', i_type = JString ''blog'', i_title = JString ''T'',
       i_content = JString ''C'', i_slug = JString ''t'', i_author = JString ''Admin'',
       i_createdAt = JString ''2025-03-02'', i_updatedAt = JString ''2025-03-02'',
       i_featured = True, i_image = JUndefined, i_category = JUndefined,
       i_tags = JArray [], i_position = JUndefined, i_company = JUndefined \<rparr>"
proof -
  have id: "a_id api_example \<noteq> JUndefined" "a_id api_example \<noteq> JNull"
    by (simp_all add: api_example_def)
  have abs: "no_tags (a_tags api_example)" "null_or_empty (a_image api_example)"
    "null_or_empty (a_category api_example)" "null_or_empty (a_position api_example)"
    "null_or_empty (a_company api_example)"
    by (simp_all add: api_example_def no_tags_def null_or_empty_def)
  from formatContentFromApi_normalizes [OF id] abs
  obtain item where item: "formatContentFromApi api_example = Inr item"
    and n: "i_tags item = JArray []" "i_featured item = truthy (a_featured api_example)"
      "i_image item = JUndefined" "i_category item = JUndefined"
      "i_position item = JUndefined" "i_company item = JUndefined"
    by blast
  have rest: "formatContentFromApi api_example = Inr item \<Longrightarrow>
      i_id item = ''7'' \<and> i_type item = JString ''blog'' \<and> i_title item = JString ''T'' \<and>
      i_content item = JString ''C'' \<and> i_slug item = JString ''t'' \<and> i_author item = JString ''Admin'' \<and>
      i_createdAt item = JString ''2025-03-02'' \<and> i_updatedAt item = JString ''2025-03-02''"
    by (auto simp: formatContentFromApi_def toString_def api_example_def show_int_def)
  from rest [OF item] n have "item = \<lparr> i_id = ''7'', i_type = JString ''blog'', i_title = JString ''T'',
       i_content = JString ''C'', i_slug = JString ''t'', i_author = JString ''Admin'',
       i_createdAt = JString ''2025-03-02'', i_updatedAt = JString ''2025-03-02'',
       i_featured = True, i_image = JUndefined, i_category = JUndefined,
       i_tags = JArray [], i_position = JUndefined, i_company = JUndefined \<rparr>"
    by (cases item) (simp add: api_example_def)
  with item show ?thesis by simp
qed

section \<open>Authentication and authorization of the routes that write\<close>

lemma run_auth:
  "run [authenticate verify secret, isAdmin] h req s =
     (case authenticate verify secret req of
        Responded res \<Rightarrow> (res, s)
      | Next req' \<Rightarrow> (case isAdmin req' of Responded res \<Rightarrow> (res, s) | Next req'' \<Rightarrow> h req'' s))"
  by (simp split: outcome.splits)

lemma router_mutating:
  "mutating r \<Longrightarrow>
   router verify env now r = run [authenticate verify (JWT_SECRET env), isAdmin] (handler_of now r)"
  by (cases r) (simp_all add: router_def)

lemma authenticate_no_token:
  "x_auth_token req = None \<Longrightarrow>
   authenticate verify secret req = Responded \<lparr>status = 401, json = Message ''No token, authorization denied''\<rparr>"
  by (simp add: authenticate_def)

text \<open>
  C3: a request without the credential header to any route that writes (\<^verbatim>\<open>POST\<close>, \<^verbatim>\<open>PUT\<close>,
  \<^verbatim>\<open>DELETE\<close> of content or media) is answered 401 with the no-token message, and the store
  is left as it was: no handler is reached.
\<close>

theorem no_credential_401:
  assumes "mutating r" and "x_auth_token req = None"
  shows "router verify env now r req s =
    (\<lparr>status = 401, json = Message ''No token, authorization denied''\<rparr>, s)"
  using assms by (simp add: router_mutating authenticate_no_token del: run.simps add: run_auth)

theorem no_credential_401_witness:
  "router example_verify None 0 POST_content example_request example_store =
     (\<lparr>status = 401, json = Message ''No token, authorization denied''\<rparr>, example_store)"
proof -
  have "mutating POST_content" by simp
  moreover have "x_auth_token example_request = None" by (simp add: example_request_def)
  ultimately show ?thesis by (rule no_credential_401)
qed

text \<open>
  C4: on every route that writes, \<^verbatim>\<open>authenticate\<close> runs before \<^verbatim>\<open>isAdmin\<close>; whenever
  \<^verbatim>\<open>authenticate\<close> answers (as it does for a missing credential) that answer is the
  response, so the role check is not reached; and a valid credential whose role is not
  \<^verbatim>\<open>admin\<close> is answered 403 with the store left as it was.
\<close>

theorem admin_gate_after_authenticate:
  assumes "mutating r"
  shows "router verify env now r = run [authenticate verify (JWT_SECRET env), isAdmin] (handler_of now r) \<and>
    (\<forall>res. authenticate verify (JWT_SECRET env) req = Responded res \<longrightarrow>
       router verify env now r req s = (res, s)) \<and>
    (x_auth_token req = None \<longrightarrow>
       authenticate verify (JWT_SECRET env) req =
         Responded \<lparr>status = 401, json = Message ''No token, authorization denied''\<rparr>) \<and>
    (\<forall>token u. x_auth_token req = Some token \<and> token \<noteq> [] \<and>
         verify token (JWT_SECRET env) = Some u \<and> role u \<noteq> ''admin'' \<longrightarrow>
       router verify env now r req s =
         (\<lparr>status = 403, json = Message ''Access denied. Admin role required.''\<rparr>, s))"
proof (intro conjI allI impI)
  show "router verify env now r = run [authenticate verify (JWT_SECRET env), isAdmin] (handler_of now r)"
    using assms by (rule router_mutating)
next
  fix res assume "authenticate verify (JWT_SECRET env) req = Responded res"
  then show "router verify env now r req s = (res, s)"
    using assms by (simp add: router_mutating del: run.simps add: run_auth)
next
  assume "x_auth_token req = None"
  then show "authenticate verify (JWT_SECRET env) req =
         Responded \<lparr>status = 401, json = Message ''No token, authorization denied''\<rparr>"
    by (rule authenticate_no_token)
next
  fix token u
  assume a: "x_auth_token req = Some token \<and> token \<noteq> [] \<and>
         verify token (JWT_SECRET env) = Some u \<and> role u \<noteq> ''admin''"
  then have "authenticate verify (JWT_SECRET env) req = Next (req\<lparr>req_user := Some u\<rparr>)"
    by (simp add: authenticate_def)
  moreover from a have "isAdmin (req\<lparr>req_user := Some u\<rparr>) =
      Responded \<lparr>status = 403, json = Message ''Access denied. Admin role required.''\<rparr>"
    by (simp add: isAdmin_def)
  ultimately show "router verify env now r req s =
         (\<lparr>status = 403, json = Message ''Access denied. Admin role required.''\<rparr>, s)"
    using assms by (simp add: router_mutating del: run.simps add: run_auth)
qed

theorem admin_gate_after_authenticate_witness:
  "router example_verify None 0 PUT_content_id (example_request\<lparr>x_auth_token := Some ''editor-token''\<rparr>) example_store =
     (\<lparr>status = 403, json = Message ''Access denied. Admin role required.''\<rparr>, example_store)"
proof -
  have m: "mutating PUT_content_id" by simp
  have "x_auth_token (example_request\<lparr>x_auth_token := Some ''editor-token''\<rparr>) = Some ''editor-token'' \<and>
      ''editor-token'' \<noteq> [] \<and>
      example_verify ''editor-token'' (JWT_SECRET None) = Some \<lparr>user_id = 2, role = ''editor''\<rparr> \<and>
      role \<lparr>user_id = 2, role = ''editor''\<rparr> \<noteq> ''admin''"
    by (simp add: example_verify_def)
  with admin_gate_after_authenticate [OF m, of example_verify None 0
      "example_request\<lparr>x_auth_token := Some ''editor-token''\<rparr>" example_store]
  show ?thesis by blast
qed

section \<open>The signing key\<close>

lemma authenticate_verifies:
  "x_auth_token req = Some token \<Longrightarrow> token \<noteq> [] \<Longrightarrow>
   authenticate verify secret req =
     (case verify token secret of
        Some decoded \<Rightarrow> Next (req\<lparr>req_user := Some decoded\<rparr>)
      | None \<Rightarrow> Responded \<lparr>status = 401, json = Message ''Token is not valid''\<rparr>)"
  by (simp add: authenticate_def)

text \<open>
  C5 as stated (with no key configured the implementation demands one and does not fall
  back to the key in the source) fails: with the variable unset the key is the one in the
  source.
\<close>

theorem JWT_SECRET_unset_counterexample:
  "JWT_SECRET None = ''d5692e8f3e1bd1fe110cd2766a3a074f41898372a1e5458a4fabf6d62683844c''"
  by (simp add: JWT_SECRET_def FALLBACK_SECRET_def)

text \<open>
  C5, amended: the signing key is the configured one when the variable is set and not
  empty; when it is unset or empty the key is the one in the source, and \<^verbatim>\<open>authenticate\<close>
  then accepts exactly the tokens that are valid for that key.
\<close>

theorem JWT_SECRET_configured_or_fallback:
  "(\<forall>k. env = Some k \<and> k \<noteq> [] \<longrightarrow> JWT_SECRET env = k) \<and>
   (env = None \<or> env = Some [] \<longrightarrow>
      JWT_SECRET env = FALLBACK_SECRET \<and>
      (\<forall>token. x_auth_token req = Some token \<and> token \<noteq> [] \<longrightarrow>
         authenticate verify (JWT_SECRET env) req =
           (case verify token FALLBACK_SECRET of
              Some decoded \<Rightarrow> Next (req\<lparr>req_user := Some decoded\<rparr>)
            | None \<Rightarrow> Responded \<lparr>status = 401, json = Message ''Token is not valid''\<rparr>)))"
proof (intro conjI allI impI)
  fix k assume "env = Some k \<and> k \<noteq> []"
  then show "JWT_SECRET env = k" by (simp add: JWT_SECRET_def)
next
  assume e: "env = None \<or> env = Some []"
  then show k: "JWT_SECRET env = FALLBACK_SECRET" by (auto simp: JWT_SECRET_def)
  fix token assume "x_auth_token req = Some token \<and> token \<noteq> []"
  then show "authenticate verify (JWT_SECRET env) req =
           (case verify token FALLBACK_SECRET of
              Some decoded \<Rightarrow> Next (req\<lparr>req_user := Some decoded\<rparr>)
            | None \<Rightarrow> Responded \<lparr>status = 401, json = Message ''Token is not valid''\<rparr>)"
    unfolding k by (simp add: authenticate_verifies)
qed

theorem JWT_SECRET_configured_or_fallback_witness:
  "JWT_SECRET (Some ''s3cret'') = ''s3cret'' \<and> JWT_SECRET (Some []) = FALLBACK_SECRET \<and>
   authenticate example_verify (JWT_SECRET None) (example_request\<lparr>x_auth_token := Some ''admin-token''\<rparr>) =
     Next (example_request\<lparr>x_auth_token := Some ''admin-token'', req_user := Some \<lparr>user_id = 1, role = ''admin''\<rparr>\<rparr>)"
proof -
  let ?req = "example_request\<lparr>x_auth_token := Some ''admin-token''\<rparr>"
  have "JWT_SECRET (Some ''s3cret'') = ''s3cret''"
    using JWT_SECRET_configured_or_fallback [of "Some ''s3cret''"] by simp
  moreover have "JWT_SECRET (Some []) = FALLBACK_SECRET"
    using JWT_SECRET_configured_or_fallback [of "Some []"] by simp
  moreover have "authenticate example_verify (JWT_SECRET None) ?req =
      (case example_verify ''admin-token'' FALLBACK_SECRET of
         Some decoded \<Rightarrow> Next (?req\<lparr>req_user := Some decoded\<rparr>)
       | None \<Rightarrow> Responded \<lparr>status = 401, json = Message ''Token is not valid''\<rparr>)"
    using JWT_SECRET_configured_or_fallback [of None ?req example_verify] by auto
  then have "authenticate example_verify (JWT_SECRET None) ?req =
      Next (?req\<lparr>req_user := Some \<lparr>user_id = 1, role = ''admin''\<rparr>\<rparr>)"
    by (simp add: example_verify_def)
  ultimately show ?thesis by simp
qed

section \<open>Deleting an id that is not stored\<close>

lemma delete_content_missing:
  "\<forall>r\<in>set (content s). c_id r \<noteq> i \<Longrightarrow> delete_content i s = (0, s)"
proof -
  assume a: "\<forall>r\<in>set (content s). c_id r \<noteq> i"
  then have "filter (\<lambda>r. c_id r = i) (content s) = []" by (simp add: filter_empty_conv)
  moreover from a have "filter (\<lambda>r. c_id r \<noteq> i) (content s) = content s" by (simp add: filter_id_conv)
  ultimately show ?thesis by (simp add: delete_content_def)
qed

lemma delete_media_missing:
  "\<forall>r\<in>set (media s). m_id r \<noteq> i \<Longrightarrow> delete_media i s = (0, s)"
proof -
  assume a: "\<forall>r\<in>set (media s). m_id r \<noteq> i"
  then have "filter (\<lambda>r. m_id r = i) (media s) = []" by (simp add: filter_empty_conv)
  moreover from a have "filter (\<lambda>r. m_id r \<noteq> i) (media s) = media s" by (simp add: filter_id_conv)
  ultimately show ?thesis by (simp add: delete_media_def)
qed

lemma run_admin:
  assumes "x_auth_token req = Some token" and "token \<noteq> []"
    and "verify token secret = Some u" and "role u = ''admin''"
  shows "run [authenticate verify secret, isAdmin] h req s = h (req\<lparr>req_user := Some u\<rparr>) s"
  using assms by (simp add: authenticate_def isAdmin_def)

text \<open>
  C7: for an id with no stored row, the \<^verbatim>\<open>DELETE\<close> statement affects zero rows and raises
  nothing, \<^verbatim>\<open>deleteContent\<close> and \<^verbatim>\<open>deleteMedia\<close> answer 404 (also through the router, for an
  admin), and the store is left as it was.
\<close>

theorem delete_missing_id_not_found:
  "((\<forall>r\<in>set (content s). c_id r \<noteq> params_id req) \<longrightarrow>
      delete_content (params_id req) s = (0, s) \<and>
      deleteContent req s = (\<lparr>status = 404, json = Message ''Content not found''\<rparr>, s) \<and>
      (\<forall>token u. x_auth_token req = Some token \<and> token \<noteq> [] \<and>
           verify token (JWT_SECRET env) = Some u \<and> role u = ''admin'' \<longrightarrow>
         router verify env now DELETE_content_id req s =
           (\<lparr>status = 404, json = Message ''Content not found''\<rparr>, s))) \<and>
   ((\<forall>r\<in>set (media s). m_id r \<noteq> params_id req) \<longrightarrow>
      delete_media (params_id req) s = (0, s) \<and>
      deleteMedia req s = (\<lparr>status = 404, json = Message ''Media not found''\<rparr>, s) \<and>
      (\<forall>token u. x_auth_token req = Some token \<and> token \<noteq> [] \<and>
           verify token (JWT_SECRET env) = Some u \<and> role u = ''admin'' \<longrightarrow>
         router verify env now DELETE_media_id req s =
           (\<lparr>status = 404, json = Message ''Media not found''\<rparr>, s)))"
proof (intro conjI impI allI)
  assume a: "\<forall>r\<in>set (content s). c_id r \<noteq> params_id req"
  then show d: "delete_content (params_id req) s = (0, s)" by (rule delete_content_missing)
  then show "deleteContent req s = (\<lparr>status = 404, json = Message ''Content not found''\<rparr>, s)"
    by (simp add: deleteContent_def)
  fix token u
  assume t: "x_auth_token req = Some token \<and> token \<noteq> [] \<and>
           verify token (JWT_SECRET env) = Some u \<and> role u = ''admin''"
  have "delete_content (params_id (req\<lparr>req_user := Some u\<rparr>)) s = (0, s)" using d by simp
  then have "deleteContent (req\<lparr>req_user := Some u\<rparr>) s =
      (\<lparr>status = 404, json = Message ''Content not found''\<rparr>, s)"
    by (simp add: deleteContent_def)
  with t show "router verify env now DELETE_content_id req s =
           (\<lparr>status = 404, json = Message ''Content not found''\<rparr>, s)"
    by (simp add: router_def del: run.simps add: run_admin)
next
  assume a: "\<forall>r\<in>set (media s). m_id r \<noteq> params_id req"
  then show d: "delete_media (params_id req) s = (0, s)" by (rule delete_media_missing)
  then show "deleteMedia req s = (\<lparr>status = 404, json = Message ''Media not found''\<rparr>, s)"
    by (simp add: deleteMedia_def)
  fix token u
  assume t: "x_auth_token req = Some token \<and> token \<noteq> [] \<and>
           verify token (JWT_SECRET env) = Some u \<and> role u = ''admin''"
  have "delete_media (params_id (req\<lparr>req_user := Some u\<rparr>)) s = (0, s)" using d by simp
  then have "deleteMedia (req\<lparr>req_user := Some u\<rparr>) s =
      (\<lparr>status = 404, json = Message ''Media not found''\<rparr>, s)"
    by (simp add: deleteMedia_def)
  with t show "router verify env now DELETE_media_id req s =
           (\<lparr>status = 404, json = Message ''Media not found''\<rparr>, s)"
    by (simp add: router_def del: run.simps add: run_admin)
qed

theorem delete_missing_id_not_found_witness:
  "router example_verify None 0 DELETE_content_id
       (example_request\<lparr>x_auth_token := Some ''admin-token'', params_id := 7\<rparr>) example_store =
     (\<lparr>status = 404, json = Message ''Content not found''\<rparr>, example_store) \<and>
   router example_verify None 0 DELETE_media_id
       (example_request\<lparr>x_auth_token := Some ''admin-token'', params_id := 7\<rparr>) example_store =
     (\<lparr>status = 404, json = Message ''Media not found''\<rparr>, example_store)"
proof -
  let ?req = "example_request\<lparr>x_auth_token := Some ''admin-token'', params_id := 7\<rparr>"
  have c: "\<forall>r\<in>set (content example_store). c_id r \<noteq> params_id ?req"
    by (simp add: example_store_def home_page_def blog_post_def)
  have m: "\<forall>r\<in>set (media example_store). m_id r \<noteq> params_id ?req"
    by (simp add: example_store_def dashboard_preview_def)
  have t: "x_auth_token ?req = Some ''admin-token'' \<and> ''admin-token'' \<noteq> [] \<and>
      example_verify ''admin-token'' (JWT_SECRET None) = Some \<lparr>user_id = 1, role = ''admin''\<rparr> \<and>
      role \<lparr>user_id = 1, role = ''admin''\<rparr> = ''admin''"
    by (simp add: example_verify_def)
  from delete_missing_id_not_found [of example_store ?req example_verify None 0] c m t
  show ?thesis by blast
qed

section \<open>Listing content\<close>

lemma order_by_desc_sorted:
  "sorted_wrt (\<lambda>a b. key b \<le> key a) (order_by_desc key rows)"
proof -
  have "sorted (map key (sort_key key rows))" by (rule sorted_sort_key)
  then have "sorted_wrt (\<lambda>a b. key a \<le> key b) (sort_key key rows)"
    by (simp add: sorted_map)
  then show ?thesis by (simp add: order_by_desc_def sorted_wrt_rev)
qed

lemma order_by_desc_mset: "mset (order_by_desc key rows) = mset rows"
  by (simp add: order_by_desc_def)

lemma listed_rows_listContent:
  "listed_rows (json (fst (listContent req s))) =
     select_content (case query_type req of None \<Rightarrow> None | Some t \<Rightarrow> if t \<noteq> [] then Some t else None) s"
  by (simp add: listContent_def Let_def comp_def)

text \<open>
  C8 as stated fails in its last part: a filter value that is not a value of the \<^verbatim>\<open>ENUM\<close>
  does not return all content, it returns nothing.
\<close>

theorem listContent_unknown_type_counterexample:
  "''video'' \<notin> set content_types \<and>
   content example_store = [home_page, blog_post] \<and>
   fst (listContent (example_request\<lparr>query_type := Some ''video''\<rparr>) example_store) =
     \<lparr>status = 200, json = ContentListJson []\<rparr>"
  by (simp add: content_types_def example_store_def listContent_def select_content_def
      order_by_desc_def home_page_def blog_post_def)

text \<open>
  C8, amended: \<^verbatim>\<open>listContent\<close> with a type filter returns exactly the rows whose type equals
  the filter value, ordered by \<^verbatim>\<open>updated_at\<close> descending; an absent (or empty) filter returns
  all content; a filter value that is not a value of the \<^verbatim>\<open>ENUM\<close> returns no row.
\<close>

theorem listContent_filters_by_type:
  "snd (listContent req s) = s \<and>
   status (fst (listContent req s)) = 200 \<and>
   sorted_wrt (\<lambda>a b. c_updated_at b \<le> c_updated_at a) (listed_rows (json (fst (listContent req s)))) \<and>
   (\<forall>t. query_type req = Some t \<and> t \<noteq> [] \<longrightarrow>
      mset (listed_rows (json (fst (listContent req s)))) = mset (filter (\<lambda>r. c_type r = t) (content s))) \<and>
   (query_type req = None \<or> query_type req = Some [] \<longrightarrow>
      mset (listed_rows (json (fst (listContent req s)))) = mset (content s)) \<and>
   (\<forall>t. query_type req = Some t \<and> t \<noteq> [] \<and> t \<notin> set content_types \<and> types_valid s \<longrightarrow>
      listed_rows (json (fst (listContent req s))) = [])"
proof (intro conjI allI impI)
  show "snd (listContent req s) = s" by (simp add: listContent_def Let_def)
  show "status (fst (listContent req s)) = 200" by (simp add: listContent_def Let_def)
  show "sorted_wrt (\<lambda>a b. c_updated_at b \<le> c_updated_at a) (listed_rows (json (fst (listContent req s))))"
    unfolding listed_rows_listContent select_content_def by (rule order_by_desc_sorted)
next
  fix t assume "query_type req = Some t \<and> t \<noteq> []"
  then show "mset (listed_rows (json (fst (listContent req s)))) = mset (filter (\<lambda>r. c_type r = t) (content s))"
    unfolding listed_rows_listContent select_content_def by (simp add: order_by_desc_mset)
next
  assume "query_type req = None \<or> query_type req = Some []"
  then show "mset (listed_rows (json (fst (listContent req s)))) = mset (content s)"
    unfolding listed_rows_listContent select_content_def by (auto simp: order_by_desc_mset)
next
  fix t assume a: "query_type req = Some t \<and> t \<noteq> [] \<and> t \<notin> set content_types \<and> types_valid s"
  then have "filter (\<lambda>r. c_type r = t) (content s) = []"
    by (auto simp: types_valid_def filter_empty_conv)
  with a show "listed_rows (json (fst (listContent req s))) = []"
    unfolding listed_rows_listContent select_content_def by (simp add: order_by_desc_def)
qed

theorem listContent_filters_by_type_witness:
  "listed_rows (json (fst (listContent (example_request\<lparr>query_type := Some ''blog''\<rparr>) example_store))) = [blog_post] \<and>
   mset (listed_rows (json (fst (listContent example_request example_store)))) = mset [home_page, blog_post] \<and>
   types_valid example_store \<and>
   listed_rows (json (fst (listContent (example_request\<lparr>query_type := Some ''video''\<rparr>) example_store))) = []"
proof -
  let ?blog = "example_request\<lparr>query_type := Some ''blog''\<rparr>"
  let ?video = "example_request\<lparr>query_type := Some ''video''\<rparr>"
  have "query_type ?blog = Some ''blog'' \<and> ''blog'' \<noteq> []" by simp
  with listContent_filters_by_type [of ?blog example_store]
  have "mset (listed_rows (json (fst (listContent ?blog example_store)))) =
      mset (filter (\<lambda>r. c_type r = ''blog'') (content example_store))"
    by blast
  then have "mset (listed_rows (json (fst (listContent ?blog example_store)))) = mset [blog_post]"
    by (simp add: example_store_def home_page_def blog_post_def)
  then have b: "listed_rows (json (fst (listContent ?blog example_store))) = [blog_post]"
    by (simp only: mset_single_iff_right mset.simps) (metis mset.simps mset_single_iff)
  have "query_type example_request = None \<or> query_type example_request = Some []"
    by (simp add: example_request_def)
  with listContent_filters_by_type [of example_request example_store]
  have "mset (listed_rows (json (fst (listContent example_request example_store)))) = mset (content example_store)"
    by blast
  then have n: "mset (listed_rows (json (fst (listContent example_request example_store)))) = mset [home_page, blog_post]"
    by (simp add: example_store_def)
  have tv: "types_valid example_store"
    by (simp add: types_valid_def example_store_def home_page_def blog_post_def content_types_def)
  have "query_type ?video = Some ''video'' \<and> ''video'' \<noteq> [] \<and> ''video'' \<notin> set content_types \<and> types_valid example_store"
    using tv by (simp add: content_types_def)
  with listContent_filters_by_type [of ?video example_store]
  have v: "listed_rows (json (fst (listContent ?video example_store))) = []"
    by blast
  from b n tv v show ?thesis by simp
qed

section \<open>Creating content\<close>




lemma rollback_committed:
  "release (rollback (commit c)) = db c"
  by (simp add: release_def rollback_def commit_def)



lemma release_uncommitted:
  "release (beginTransaction (getConnection s)\<lparr>db := s1\<rparr>) =
     s1\<lparr>content := content s, content_tags := content_tags s, media := media s\<rparr>"
  by (simp add: release_def beginTransaction_def getConnection_def)













section \<open>Updating content\<close>

lemma updateContent_cases:
  "updateContent now i b s =
     (case update_content now (values_of b) i s of
        Inl err \<Rightarrow> (Inl err, s)
      | Inr (affectedRows, s1) \<Rightarrow>
          (case (if has_tags (b_tags b)
                 then insert_content_tags (map (\<lambda>tag. (i, tag)) (tags_of (b_tags b))) (delete_content_tags i s1)
                 else Inr (delete_content_tags i s1)) of
             Inl err \<Rightarrow>
               (Inl err, (delete_content_tags i s1)
                  \<lparr>content := content s, content_tags := content_tags s, media := media s\<rparr>)
           | Inr s3 \<Rightarrow>
               (case select_content_by_id i s3 of
                  [] \<Rightarrow> (Inl TypeError, s3)
                | result # _ \<Rightarrow> (Inr (result, select_tags i s3), s3))))"
  by (simp add: updateContent_def update_try_def Let_def beginTransaction_def getConnection_def
      release_def rollback_def commit_def split: sum.splits prod.splits list.splits)





















section \<open>Updating an id that is not stored\<close>

lemma insert_content_tags_unreferenced:
  "rows \<noteq> [] \<Longrightarrow> \<forall>r\<in>set (content s). c_id r \<noteq> i \<Longrightarrow> \<forall>row\<in>set rows. fst row = i \<Longrightarrow>
   \<exists>err. insert_content_tags rows s = Inl err"
  by (cases rows) (auto simp: image_iff)

lemma updateContent_missing_id:
  assumes "\<forall>r\<in>set (content s). c_id r \<noteq> i"
  shows "\<exists>err. fst (updateContent now i b s) = Inl err"
proof -
  from assms have up: "update_content now (values_of b) i s = Inr (0, s)"
    by (simp add: update_content_def)
  let ?s2 = "delete_content_tags i s"
  from assms have none: "select_content_by_id i ?s2 = []"
    by (simp add: select_content_by_id_def delete_content_tags_def filter_empty_conv)
  show ?thesis
  proof (cases "has_tags (b_tags b)")
    case True
    then have "map (\<lambda>tag. (i, tag)) (tags_of (b_tags b)) \<noteq> []"
      by (auto simp: has_tags_def tags_of_def split: option.splits)
    moreover from assms have "\<forall>r\<in>set (content ?s2). c_id r \<noteq> i"
      by (simp add: delete_content_tags_def)
    ultimately obtain err where
      "insert_content_tags (map (\<lambda>tag. (i, tag)) (tags_of (b_tags b))) ?s2 = Inl err"
      using insert_content_tags_unreferenced [of "map (\<lambda>tag. (i, tag)) (tags_of (b_tags b))" ?s2 i]
      by auto
    with True up show ?thesis by (simp add: updateContent_cases)
  next
    case False
    with up none show ?thesis by (simp add: updateContent_cases)
  qed
qed

lemma put_content_missing_id:
  assumes "\<forall>r\<in>set (content s). c_id r \<noteq> params_id req"
  shows "fst (put_content now req s) = \<lparr>status = 500, json = Message ''Server error''\<rparr>"
proof -
  from updateContent_missing_id [OF assms, of now "body req"]
  obtain err s' where "updateContent now (params_id req) (body req) s = (Inl err, s')"
    by (cases "updateContent now (params_id req) (body req) s") auto
  then show ?thesis by (simp add: put_content_def)
qed

text \<open>
  C6 (an update of an id that is not stored ends in NotFound for the caller) against the
  code: \<^verbatim>\<open>GET /:id\<close> answers 404 for the id, but the update, after zero rows are affected
  and the read-back finds nothing, raises on \<^verbatim>\<open>undefined\<close> and the caller gets 500.
\<close>

theorem put_missing_id_server_error:
  "select_content_by_id 7 example_store = [] \<and>
   fst (getContent missing_update example_store) = \<lparr>status = 404, json = Message ''Content not found''\<rparr> \<and>
   updateContent 100 7 (body missing_update) example_store = (Inl TypeError, example_store) \<and>
   router example_verify None 100 PUT_content_id missing_update example_store =
     (\<lparr>status = 500, json = Message ''Server error''\<rparr>, example_store)"
proof -
  have none: "select_content_by_id 7 example_store = []"
    by (simp add: select_content_by_id_def example_store_def home_page_def blog_post_def)
  have i: "params_id missing_update = 7" by (simp add: missing_update_def)
  have up: "update_content 100 (values_of (body missing_update)) 7 example_store = Inr (0, example_store)"
    by (simp add: update_content_def example_store_def home_page_def blog_post_def)
  have del: "delete_content_tags 7 example_store = example_store"
    by (simp add: delete_content_tags_def example_store_def)
  have nt: "\<not> has_tags (b_tags (body missing_update))"
    by (simp add: missing_update_def has_tags_def)
  have u: "updateContent 100 7 (body missing_update) example_store = (Inl TypeError, example_store)"
    by (simp add: updateContent_cases up del nt none)
  have t: "x_auth_token missing_update = Some ''admin-token''" "''admin-token'' \<noteq> []"
      "example_verify ''admin-token'' (JWT_SECRET None) = Some \<lparr>user_id = 1, role = ''admin''\<rparr>"
      "role \<lparr>user_id = 1, role = ''admin''\<rparr> = ''admin''"
    by (simp_all add: missing_update_def example_verify_def)
  have "router example_verify None 100 PUT_content_id missing_update example_store =
      put_content 100 (missing_update\<lparr>req_user := Some \<lparr>user_id = 1, role = ''admin''\<rparr>\<rparr>) example_store"
    unfolding router_def Let_def route.case
    by (rule run_admin [where verify = example_verify and secret = "JWT_SECRET None", OF t])
  also have "\<dots> = (\<lparr>status = 500, json = Message ''Server error''\<rparr>, example_store)"
    using u by (simp add: put_content_def i)
  finally show ?thesis
    using none u by (simp add: getContent_def i)
qed

end
